theory Spec2Isabelle
  imports Main
begin

section \<open>Strings\<close>

text \<open>
  Python strings are modelled as \<^typ>\<open>string\<close>; a \<^typ>\<open>char\<close> stands for a code
  point below 256 (the Latin-1 range of Python's \<^verbatim>\<open>str\<close>).  \<^verbatim>\<open>str.strip()\<close>
  without argument removes the leading and the trailing characters for which
  \<^verbatim>\<open>str.isspace\<close> holds; in this range they are the code points 9 to 13, 28 to 32,
  133 and 160.  \<^verbatim>\<open>str.lower()\<close> maps A..Z and the capital letters of Latin-1 (192 to
  222 without the multiplication sign 215) to the letter 32 places further on and leaves
  every other character of the range as it is.
\<close>

definition isspace :: "char \<Rightarrow> bool" where
  "isspace c = ((of_char c :: nat) \<in> set [9, 10, 11, 12, 13, 28, 29, 30, 31, 32, 133, 160])"

definition strip :: "string \<Rightarrow> string" where
  "strip s = rev (dropWhile isspace (rev (dropWhile isspace s)))"

definition lower_char :: "char \<Rightarrow> char" where
  "lower_char c =
     (let n = (of_char c :: nat)
      in if (65 \<le> n \<and> n \<le> 90) \<or> (192 \<le> n \<and> n \<le> 222 \<and> n \<noteq> 215)
         then char_of (n + 32) else c)"

definition lower :: "string \<Rightarrow> string" where
  "lower s = map lower_char s"

definition newline :: char where
  "newline = CHR 0x0A"

definition apostrophe :: char where
  "apostrophe = CHR 0x27"

section \<open>Exceptions, provider results and the world of one turn\<close>

text \<open>
  An exception value is an instance of a subclass of Python's \<^verbatim>\<open>Exception\<close>: its class
  name and the text \<^verbatim>\<open>str(e)\<close>.  Both handlers of the session code are written
  \<^verbatim>\<open>except Exception\<close>, so they catch every value of this type.  \<^verbatim>\<open>KeyboardInterrupt\<close>
  and \<^verbatim>\<open>SystemExit\<close> are not instances of \<^verbatim>\<open>Exception\<close>; no service raises them, the
  interpreter does, and they are not values of this type.
\<close>

datatype exn = Exn (exn_class: string) (exn_msg: string)

text \<open>
  The enumerations of the speech SDK.  \<open>OtherReason\<close> stands for the remaining members of
  \<^verbatim>\<open>ResultReason\<close> (intent, translation, keyword, voice-profile results and so on).
\<close>

datatype ResultReason =
    NoMatch
  | Canceled
  | RecognizingSpeech
  | RecognizedSpeech
  | SynthesizingAudio
  | SynthesizingAudioCompleted
  | SynthesizingAudioStarted
  | OtherReason nat

datatype CancellationReason = Error | EndOfStream | CancelledByUser

fun str_CancellationReason :: "CancellationReason \<Rightarrow> string" where
  "str_CancellationReason Error = ''CancellationReason.Error''"
| "str_CancellationReason EndOfStream = ''CancellationReason.EndOfStream''"
| "str_CancellationReason CancelledByUser = ''CancellationReason.CancelledByUser''"

datatype CancellationDetails =
  CancellationDetails (cancel_reason: CancellationReason) (error_details: string)

text \<open>
  \<open>no_match_details\<close> is the text that formatting the SDK's details object gives.
\<close>

datatype SpeechRecognitionResult =
  SpeechRecognitionResult
    (reason: ResultReason)
    (result_text: string)
    (no_match_details: string)
    (cancellation_details: CancellationDetails)

datatype SpeechSynthesisResult =
  SpeechSynthesisResult
    (synth_reason: ResultReason)
    (synth_cancellation_details: CancellationDetails)

text \<open>
  What the outside world answers during one iteration of the loop.  Every external call of
  the loop body happens at most once per iteration, so one field per call is enough:
  \<^item> \<open>mic_setup\<close>: building the microphone \<^verbatim>\<open>AudioConfig\<close> and the \<^verbatim>\<open>SpeechRecognizer\<close>
    (lines 70-71), \<open>Some e\<close> when the SDK raises;
  \<^item> \<open>recognition\<close>: \<^verbatim>\<open>recognize_once_async().get()\<close> (line 75);
  \<^item> \<open>completion\<close>: \<^verbatim>\<open>client.chat.completions.create\<close> (line 43), on success the
    \<^verbatim>\<open>message.content\<close> of each choice, which the provider's type allows to be \<^verbatim>\<open>None\<close>;
  \<^item> \<open>synth_setup\<close>: building the file \<^verbatim>\<open>AudioConfig\<close> and the \<^verbatim>\<open>SpeechSynthesizer\<close>
    (lines 110-111);
  \<^item> \<open>synthesis\<close>: \<^verbatim>\<open>speak_text_async(text).get()\<close> (line 114), and \<open>synth_writes_file\<close>:
    whether that call leaves a file \<^verbatim>\<open>output.wav\<close> behind;
  \<^item> \<open>player\<close>: opening the null device and running \<^verbatim>\<open>ffplay\<close> with \<^verbatim>\<open>check=True\<close>
    (lines 130-135), \<open>Some e\<close> when the player is missing or exits non-zero;
  \<^item> \<open>os_remove\<close>: \<^verbatim>\<open>os.remove\<close> (line 141), \<open>Some e\<close> when the file cannot be deleted;
  \<^item> \<open>user_input\<close>: \<^verbatim>\<open>input(...)\<close> (line 165), \<open>Inl e\<close> for example at end of input.
\<close>

record turn_env =
  mic_setup :: "exn option"
  recognition :: "exn + SpeechRecognitionResult"
  completion :: "exn + string option list"
  synth_setup :: "exn option"
  synthesis :: "exn + SpeechSynthesisResult"
  synth_writes_file :: bool
  player :: "exn option"
  os_remove :: "exn option"
  user_input :: "exn + string"

text \<open>The observable actions of the program, in the order they happen.\<close>

datatype event =
    Print string
  | NewRecognizer
  | RecognizeOnce
  | ChatCompletion string
  | NewSynthesizer
  | SpeakText string
  | Ffplay string
  | OsRemove string
  | InputPrompt string
  | Sleep nat

text \<open>The regular files that exist, by path.\<close>

type_synonym files = "string set"

section \<open>The services\<close>

text \<open>\<^verbatim>\<open>chat_gpt\<close>, lines 42-48.\<close>

definition chat_gpt :: "turn_env \<Rightarrow> string \<Rightarrow> event list \<times> (exn + string)" where
  "chat_gpt env prompt =
     ([ChatCompletion prompt],
      (case completion env of
         Inl e \<Rightarrow> Inl e
       | Inr choices \<Rightarrow>
           (case choices of
              [] \<Rightarrow> Inl (Exn ''IndexError'' ''list index out of range'')
            | content # _ \<Rightarrow>
                (case content of
                   None \<Rightarrow>
                     Inl (Exn ''AttributeError''
                       ([apostrophe] @ ''NoneType'' @ [apostrophe] @ '' object has no attribute ''
                        @ [apostrophe] @ ''strip'' @ [apostrophe]))
                 | Some s \<Rightarrow> Inr (strip s)))))"

text \<open>\<^verbatim>\<open>SpeechToTextManager.speechtotext_from_mic\<close>, lines 69-92.\<close>

definition speechtotext_from_mic :: "turn_env \<Rightarrow> event list \<times> (exn + string option)" where
  "speechtotext_from_mic env =
     (case mic_setup env of
        Some e \<Rightarrow> ([NewRecognizer], Inl e)
      | None \<Rightarrow>
          (let asked = [NewRecognizer, Print ''Speak into your microphone...'', RecognizeOnce]
           in case recognition env of
                Inl e \<Rightarrow> (asked, Inl e)
              | Inr r \<Rightarrow>
                  if reason r = RecognizedSpeech then (asked, Inr (Some (result_text r)))
                  else if reason r = NoMatch then
                    (asked @ [Print (''No speech could be recognized: '' @ no_match_details r),
                              Print ''Retrying...''],
                     Inr None)
                  else if reason r = Canceled then
                    (asked
                     @ [Print (''Speech Recognition canceled: ''
                               @ str_CancellationReason (cancel_reason (cancellation_details r)))]
                     @ (if cancel_reason (cancellation_details r) = Error
                        then [Print (''Error details: '' @ error_details (cancellation_details r))]
                        else []),
                     Inr None)
                  else (asked, Inr None)))"

text \<open>
  \<^verbatim>\<open>TextToSpeechManager.play_audio\<close>, lines 127-143.  The \<^verbatim>\<open>except Exception\<close> of line 136
  catches a failure of the player and prints it; the \<^verbatim>\<open>finally\<close> block asks
  \<^verbatim>\<open>os.path.isfile\<close> and, when the file is there, calls \<^verbatim>\<open>os.remove\<close>, whose failure is
  caught and dropped by \<^verbatim>\<open>pass\<close>.
\<close>

definition play_audio :: "turn_env \<Rightarrow> string \<Rightarrow> files \<Rightarrow> event list \<times> files" where
  "play_audio env file_path fs =
     (let played =
            Ffplay file_path
            # (case player env of
                 None \<Rightarrow> []
               | Some e \<Rightarrow> [Print (''An error occurred while playing audio: '' @ exn_msg e)])
      in if file_path \<in> fs then
           (case os_remove env of
              None \<Rightarrow> (played @ [OsRemove file_path], fs - {file_path})
            | Some e \<Rightarrow> (played @ [OsRemove file_path], fs))
         else (played, fs))"

text \<open>
  \<^verbatim>\<open>TextToSpeechManager.text_to_speech\<close>, lines 108-124.  The string of line 122 has no
  \<^verbatim>\<open>f\<close> prefix, so its braces are printed as they stand.
\<close>

definition text_to_speech :: "turn_env \<Rightarrow> string \<Rightarrow> files \<Rightarrow> event list \<times> files \<times> (exn + unit)" where
  "text_to_speech env txt fs =
     (case synth_setup env of
        Some e \<Rightarrow> ([NewSynthesizer], fs, Inl e)
      | None \<Rightarrow>
          (let spoken = [NewSynthesizer, SpeakText txt];
               fs1 = (if synth_writes_file env then insert ''output.wav'' fs else fs)
           in case synthesis env of
                Inl e \<Rightarrow> (spoken, fs1, Inl e)
              | Inr result \<Rightarrow>
                  if synth_reason result = SynthesizingAudioCompleted then
                    (case play_audio env ''output.wav'' fs1 of
                       (played, fs2) \<Rightarrow>
                         (spoken @ [Print ''Speech synthesis completed.''] @ played, fs2, Inr ()))
                  else if synth_reason result = Canceled then
                    (spoken
                     @ [Print ''Speech synthesis canceled: {cancellation_details.reason}'']
                     @ (if cancel_reason (synth_cancellation_details result) = Error
                        then [Print (''Error details: ''
                                     @ error_details (synth_cancellation_details result))]
                        else []),
                     fs1, Inr ())
                  else (spoken, fs1, Inr ())))"

section \<open>The session loop\<close>

text \<open>Python's truth value of \<^verbatim>\<open>speech_text\<close>: \<^verbatim>\<open>None\<close> and the empty string are false.\<close>

definition truthy :: "string option \<Rightarrow> bool" where
  "truthy speech_text = (case speech_text of None \<Rightarrow> False | Some s \<Rightarrow> s \<noteq> [])"

definition retry_notice :: string where
  "retry_notice = ''No valid speech input detected. Please try again.''"

definition quit_prompt :: string where
  "quit_prompt =
     [newline] @ ''Type '' @ [apostrophe] @ ''quit'' @ [apostrophe]
     @ '' to exit or press Enter to continue: ''"

text \<open>
  Lines 152-162: transcribe, then complete and speak when there is text, else print the
  notice.  An exception of a service ends the block at once with \<open>Inl\<close>.
\<close>

definition pipeline :: "turn_env \<Rightarrow> files \<Rightarrow> event list \<times> files \<times> (exn + unit)" where
  "pipeline env fs =
     (case speechtotext_from_mic env of
        (heard, Inl e) \<Rightarrow> (heard, fs, Inl e)
      | (heard, Inr speech_text) \<Rightarrow>
          if truthy speech_text then
            (let said = heard @ [Print ([newline] @ ''User: '' @ the speech_text)]
             in case chat_gpt env (the speech_text) of
                  (asked, Inl e) \<Rightarrow> (said @ asked, fs, Inl e)
                | (asked, Inr chat_response) \<Rightarrow>
                    (case text_to_speech env chat_response fs of
                       (spoken, fs', r) \<Rightarrow>
                         (said @ asked @ [Print (''Bot: '' @ chat_response)] @ spoken, fs', r)))
          else (heard @ [Print retry_notice], fs, Inr ()))"

text \<open>
  Lines 165-167: the prompt; \<open>Inr True\<close> is the \<^verbatim>\<open>break\<close>.
\<close>

definition continue_or_quit :: "turn_env \<Rightarrow> event list \<times> (exn + bool)" where
  "continue_or_quit env =
     ([InputPrompt quit_prompt],
      (case user_input env of
         Inl e \<Rightarrow> Inl e
       | Inr line \<Rightarrow> Inr (lower (strip line) = ''quit'')))"

text \<open>The \<^verbatim>\<open>try\<close> block, lines 152-170.\<close>

definition try_block :: "turn_env \<Rightarrow> files \<Rightarrow> event list \<times> files \<times> (exn + bool)" where
  "try_block env fs =
     (case pipeline env fs of
        (done, fs', Inl e) \<Rightarrow> (done, fs', Inl e)
      | (done, fs', Inr _) \<Rightarrow>
          (case continue_or_quit env of
             (prompted, Inl e) \<Rightarrow> (done @ prompted, fs', Inl e)
           | (prompted, Inr user_quit) \<Rightarrow>
               if user_quit then (done @ prompted, fs', Inr True)
               else (done @ prompted @ [Sleep 1], fs', Inr False)))"

text \<open>
  One iteration of \<^verbatim>\<open>while True\<close>, lines 151-174, with the handler of line 172.  The
  result says whether the iteration left the loop by \<^verbatim>\<open>break\<close>.
\<close>

definition iteration :: "turn_env \<Rightarrow> files \<Rightarrow> event list \<times> files \<times> bool" where
  "iteration env fs =
     (case try_block env fs of
        (done, fs', Inl e) \<Rightarrow>
          (done @ [Print (''An error occurred: '' @ exn_msg e), Sleep 1], fs', False)
      | (done, fs', Inr user_quit) \<Rightarrow> (done, fs', user_quit))"

text \<open>
  The loop of line 150, run against the answers of the world for the iterations to come.
  It has no exit but \<^verbatim>\<open>break\<close>: when the answers are used up the loop is still running,
  which the result \<open>False\<close> says.
\<close>

fun session_loop :: "turn_env list \<Rightarrow> files \<Rightarrow> event list \<times> files \<times> bool" where
  "session_loop [] fs = ([], fs, False)"
| "session_loop (env # envs) fs =
     (case iteration env fs of
        (done, fs', user_quit) \<Rightarrow>
          if user_quit then (done, fs', True)
          else (case session_loop envs fs' of
                  (rest, fs'', left) \<Rightarrow> (done @ rest, fs'', left)))"

section \<open>Start-up\<close>

text \<open>
  How the process stands: ended by \<^verbatim>\<open>exit(message)\<close>, ended by an exception nobody
  caught, ended because the loop was left and the script ran to its end, or still in
  the loop.
\<close>

datatype outcome = SystemExit string | Uncaught exn | Finished | Looping

text \<open>The messages of the \<^verbatim>\<open>exit\<close> calls (lines 36, 61, 64, 100 and 103).\<close>

definition openai_key_missing :: string where
  "openai_key_missing =
     ''OpenAI API key is missing. Please set it in your environment variables.''"

definition azure_keys_missing :: "string \<Rightarrow> string" where
  "azure_keys_missing key =
     ''Azure keys are missing! Please set '' @ key
     @ '' and AZURE_TTS_REGION as environment variables!''"

definition azure_config_failed :: string where
  "azure_config_failed = ''Azure Speech SDK configuration failed.''"

text \<open>
  The constructor \<^verbatim>\<open>speechsdk.SpeechConfig(subscription=..., region=...)\<close> belongs to
  the speech SDK and is a parameter \<open>SpeechConfig\<close> here, together with the truth value
  \<open>config_bool\<close> of the object it returns.  \<^verbatim>\<open>os.getenv\<close> gives \<open>None\<close> for a variable
  that is not set.  \<^verbatim>\<open>except TypeError\<close> is modelled by the class name.

  \<^verbatim>\<open>SpeechToTextManager.__init__\<close>, lines 56-66.
\<close>

definition SpeechToTextManager_init ::
  "(string option \<Rightarrow> string option \<Rightarrow> exn + 'cfg) \<Rightarrow> ('cfg \<Rightarrow> bool)
   \<Rightarrow> (string \<Rightarrow> string option) \<Rightarrow> outcome + 'cfg" where
  "SpeechToTextManager_init SpeechConfig config_bool getenv =
     (case SpeechConfig (getenv ''AZURE_TTS_KEY'') (getenv ''AZURE_TTS_REGION'') of
        Inl e \<Rightarrow>
          if exn_class e = ''TypeError'' then
            Inl (SystemExit (azure_keys_missing ''AZURE_TTS_KEY''))
          else Inl (Uncaught e)
      | Inr azure_speechconfig \<Rightarrow>
          if \<not> config_bool azure_speechconfig then Inl (SystemExit azure_config_failed)
          else Inr azure_speechconfig)"

text \<open>\<^verbatim>\<open>TextToSpeechManager.__init__\<close>, lines 96-105.\<close>

definition TextToSpeechManager_init ::
  "(string option \<Rightarrow> string option \<Rightarrow> exn + 'cfg) \<Rightarrow> ('cfg \<Rightarrow> bool)
   \<Rightarrow> (string \<Rightarrow> string option) \<Rightarrow> outcome + 'cfg" where
  "TextToSpeechManager_init SpeechConfig config_bool getenv =
     (case SpeechConfig (getenv ''AZURE_TTS2_KEY'') (getenv ''AZURE_TTS_REGION'') of
        Inl e \<Rightarrow>
          if exn_class e = ''TypeError'' then
            Inl (SystemExit (azure_keys_missing ''AZURE_TTS2_KEY''))
          else Inl (Uncaught e)
      | Inr azure_speechconfig \<Rightarrow>
          if \<not> config_bool azure_speechconfig then Inl (SystemExit azure_config_failed)
          else Inr azure_speechconfig)"

text \<open>
  The whole script: the key check of lines 32-36 (a key that is not set or empty is
  false), the two managers of lines 147-148, then the loop.  Building the OpenAI client
  (line 39) and setting the language and the voice on the two configurations (lines 66
  and 105) send nothing and are left out.
\<close>

definition main ::
  "(string option \<Rightarrow> string option \<Rightarrow> exn + 'cfg) \<Rightarrow> ('cfg \<Rightarrow> bool)
   \<Rightarrow> (string \<Rightarrow> string option) \<Rightarrow> turn_env list \<Rightarrow> files
   \<Rightarrow> event list \<times> files \<times> outcome" where
  "main SpeechConfig config_bool getenv envs fs =
     (if \<not> truthy (getenv ''OPENAI_API_KEY'') then
        ([], fs, SystemExit openai_key_missing)
      else
        (case SpeechToTextManager_init SpeechConfig config_bool getenv of
           Inl out \<Rightarrow> ([], fs, out)
         | Inr speech_manager \<Rightarrow>
             (case TextToSpeechManager_init SpeechConfig config_bool getenv of
                Inl out \<Rightarrow> ([], fs, out)
              | Inr tts_manager \<Rightarrow>
                  (case session_loop envs fs of
                     (trace, fs', left) \<Rightarrow>
                       (trace, fs', if left then Finished else Looping)))))"

section \<open>Classifying the events\<close>

text \<open>The call that \<^verbatim>\<open>chat_gpt\<close> makes, and the calls that \<^verbatim>\<open>text_to_speech\<close> makes.\<close>

fun completion_call :: "event \<Rightarrow> bool" where
  "completion_call (ChatCompletion _) = True"
| "completion_call _ = False"

fun synthesis_call :: "event \<Rightarrow> bool" where
  "synthesis_call NewSynthesizer = True"
| "synthesis_call (SpeakText _) = True"
| "synthesis_call (Ffplay _) = True"
| "synthesis_call (OsRemove _) = True"
| "synthesis_call _ = False"

section \<open>Concrete turns\<close>

text \<open>
  The turn of the specification's first scenario: the microphone gives "hello", the
  completion "hi there", synthesis succeeds, the player runs, the file is removed and the
  user presses Enter.  The other turns differ from it in one answer each.
\<close>

definition no_details :: CancellationDetails where
  "no_details = CancellationDetails EndOfStream []"

definition hello_turn :: turn_env where
  "hello_turn =
     \<lparr>mic_setup = None,
      recognition = Inr (SpeechRecognitionResult RecognizedSpeech ''hello'' [] no_details),
      completion = Inr [Some ''hi there''],
      synth_setup = None,
      synthesis = Inr (SpeechSynthesisResult SynthesizingAudioCompleted no_details),
      synth_writes_file = True,
      player = None,
      os_remove = None,
      user_input = Inr []\<rparr>"

definition no_match_turn :: turn_env where
  "no_match_turn =
     hello_turn\<lparr>recognition :=
       Inr (SpeechRecognitionResult NoMatch [] ''NoMatchReason.InitialSilenceTimeout'' no_details)\<rparr>"

definition silent_turn :: turn_env where
  "silent_turn =
     hello_turn\<lparr>recognition := Inr (SpeechRecognitionResult RecognizedSpeech [] [] no_details)\<rparr>"

definition padded_turn :: turn_env where
  "padded_turn =
     hello_turn\<lparr>recognition :=
       Inr (SpeechRecognitionResult RecognizedSpeech '' hello '' [] no_details)\<rparr>"

definition recognizing_turn :: turn_env where
  "recognizing_turn =
     hello_turn\<lparr>recognition :=
       Inr (SpeechRecognitionResult RecognizingSpeech ''hel'' [] no_details)\<rparr>"

definition quit_turn :: turn_env where
  "quit_turn = hello_turn\<lparr>user_input := Inr '' Quit ''\<rparr>"

definition locked_turn :: turn_env where
  "locked_turn = hello_turn\<lparr>os_remove := Some (Exn ''PermissionError'' ''file in use'')\<rparr>"

definition offline_turn :: turn_env where
  "offline_turn =
     hello_turn\<lparr>completion := Inl (Exn ''APIConnectionError'' ''Connection error.''),
                 user_input := Inr ''quit''\<rparr>"

definition cancelled_turn :: turn_env where
  "cancelled_turn =
     hello_turn\<lparr>synthesis :=
                   Inr (SpeechSynthesisResult Canceled
                          (CancellationDetails Error ''Connection failed'')),
                 synth_writes_file := False\<rparr>"

definition broken_player_turn :: turn_env where
  "broken_player_turn =
     hello_turn\<lparr>player :=
       Some (Exn ''FileNotFoundError'' ''No such file or directory: ffplay'')\<rparr>"

text \<open>
  A \<^verbatim>\<open>SpeechConfig\<close> constructor that answers a missing subscription or a missing region
  with a \<^verbatim>\<open>ValueError\<close>, as the speech SDK does; the text of the exception is left open
  (\<open>msg\<close>).  Then an environment in which only \<^verbatim>\<open>AZURE_TTS2_KEY\<close> is not set, and one in
  which no Azure variable is set.
\<close>

definition raising_SpeechConfig ::
  "(string option \<Rightarrow> string option \<Rightarrow> string)
   \<Rightarrow> string option \<Rightarrow> string option \<Rightarrow> exn + string \<times> string" where
  "raising_SpeechConfig msg subscription region =
     (case subscription of
        None \<Rightarrow> Inl (Exn ''ValueError'' (msg subscription region))
      | Some key \<Rightarrow>
          (case region of
             None \<Rightarrow> Inl (Exn ''ValueError'' (msg subscription region))
           | Some r \<Rightarrow> Inr (key, r)))"

definition azure_unset :: "string \<Rightarrow> string option" where
  "azure_unset name = (if name = ''OPENAI_API_KEY'' then Some ''sk-test'' else None)"

definition synthesis_key_unset :: "string \<Rightarrow> string option" where
  "synthesis_key_unset name =
     (if name = ''OPENAI_API_KEY'' then Some ''sk-test''
      else if name = ''AZURE_TTS_KEY'' then Some ''key-one''
      else if name = ''AZURE_TTS_REGION'' then Some ''eastus''
      else None)"

section \<open>Turns without an utterance\<close>

lemma mic_events:
  "ev \<in> set (fst (speechtotext_from_mic env)) \<Longrightarrow>
     ev = NewRecognizer \<or> ev = RecognizeOnce \<or> (\<exists>s. ev = Print s)"
  by (auto simp: speechtotext_from_mic_def Let_def split: option.splits sum.splits if_splits)

lemma pipeline_no_text:
  assumes "snd (speechtotext_from_mic env) = Inr u" and "\<not> truthy u"
  shows "pipeline env fs = (fst (speechtotext_from_mic env) @ [Print retry_notice], fs, Inr ())"
  using assms by (cases "speechtotext_from_mic env") (simp add: pipeline_def)

lemma iteration_no_text:
  assumes "snd (speechtotext_from_mic env) = Inr u" and "\<not> truthy u"
  shows "\<exists>rest. fst (iteration env fs)
           = fst (speechtotext_from_mic env) @ [Print retry_notice, InputPrompt quit_prompt] @ rest
         \<and> set rest \<subseteq> {Sleep 1} \<union> range Print"
  using pipeline_no_text [OF assms, of fs]
  by (auto simp: iteration_def try_block_def continue_or_quit_def split: sum.splits)

lemma no_text_no_calls:
  assumes "snd (speechtotext_from_mic env) = Inr u" and "\<not> truthy u"
  shows "(\<forall>ev \<in> set (fst (iteration env fs)). \<not> completion_call ev \<and> \<not> synthesis_call ev)
         \<and> Print retry_notice \<in> set (fst (iteration env fs))"
proof -
  from iteration_no_text [OF assms, of fs] obtain rest where
    tr: "fst (iteration env fs)
           = fst (speechtotext_from_mic env) @ [Print retry_notice, InputPrompt quit_prompt] @ rest"
    and rest: "set rest \<subseteq> {Sleep 1} \<union> range Print"
    by blast
  have "\<not> completion_call ev \<and> \<not> synthesis_call ev" if "ev \<in> set (fst (iteration env fs))" for ev
  proof -
    from that tr have "ev \<in> set (fst (speechtotext_from_mic env)) \<or> ev = Print retry_notice
        \<or> ev = InputPrompt quit_prompt \<or> ev \<in> set rest"
      by auto
    with rest mic_events [of ev env] show ?thesis by auto
  qed
  moreover have "Print retry_notice \<in> set (fst (iteration env fs))"
    by (simp add: tr)
  ultimately show ?thesis by blast
qed

text \<open>
  Claim C1.  In an iteration whose transcription step returns \<^verbatim>\<open>None\<close>, no event of the
  iteration is a call of the completion service or of the synthesis and playback service,
  and the retry notice is printed.
\<close>

theorem no_utterance_skips_services:
  assumes "snd (speechtotext_from_mic env) = Inr None"
  shows "(\<forall>ev \<in> set (fst (iteration env fs)). \<not> completion_call ev \<and> \<not> synthesis_call ev)
         \<and> Print retry_notice \<in> set (fst (iteration env fs))"
  using no_text_no_calls [OF assms, of fs] by (simp add: truthy_def)

theorem no_utterance_skips_services_witness:
  "snd (speechtotext_from_mic no_match_turn) = Inr None
   \<and> list_all (\<lambda>ev. \<not> completion_call ev \<and> \<not> synthesis_call ev) (fst (iteration no_match_turn {}))
   \<and> Print retry_notice \<in> set (fst (iteration no_match_turn {}))"
proof -
  have h: "snd (speechtotext_from_mic no_match_turn) = Inr None"
    by (simp add: speechtotext_from_mic_def no_match_turn_def hello_turn_def)
  show ?thesis
    using h no_utterance_skips_services [OF h, of "{}"] by (simp add: list_all_iff)
qed

text \<open>
  Claim C9.  When recognition succeeds with the empty string, \<^verbatim>\<open>speechtotext_from_mic\<close>
  returns that empty string, and the iteration goes on as for no utterance: no call of the
  completion service or of the synthesis and playback service, and the retry notice is
  printed.
\<close>

theorem empty_text_is_no_utterance:
  assumes "mic_setup env = None" and "recognition env = Inr r"
    and "reason r = RecognizedSpeech" and "result_text r = []"
  shows "snd (speechtotext_from_mic env) = Inr (Some [])
         \<and> (\<forall>ev \<in> set (fst (iteration env fs)). \<not> completion_call ev \<and> \<not> synthesis_call ev)
         \<and> Print retry_notice \<in> set (fst (iteration env fs))"
proof -
  have "snd (speechtotext_from_mic env) = Inr (Some [])"
    using assms by (simp add: speechtotext_from_mic_def Let_def)
  with no_text_no_calls [of env "Some []" fs] show ?thesis
    by (simp add: truthy_def)
qed

theorem empty_text_is_no_utterance_witness:
  "mic_setup silent_turn = None
   \<and> recognition silent_turn = Inr (SpeechRecognitionResult RecognizedSpeech [] [] no_details)
   \<and> snd (speechtotext_from_mic silent_turn) = Inr (Some [])
   \<and> list_all (\<lambda>ev. \<not> completion_call ev \<and> \<not> synthesis_call ev) (fst (iteration silent_turn {}))
   \<and> Print retry_notice \<in> set (fst (iteration silent_turn {}))"
proof -
  have m: "mic_setup silent_turn = None"
    and r: "recognition silent_turn = Inr (SpeechRecognitionResult RecognizedSpeech [] [] no_details)"
    by (simp_all add: silent_turn_def hello_turn_def)
  show ?thesis
    using m r empty_text_is_no_utterance [OF m r, of "{}"] by (simp add: list_all_iff)
qed

section \<open>What the transcription step returns\<close>

text \<open>
  Claim C10.  Once the recogniser has delivered a result, every reason other than
  \<open>RecognizedSpeech\<close> (no match, cancellation, or any reason the code does not name) makes
  \<^verbatim>\<open>speechtotext_from_mic\<close> return \<^verbatim>\<open>None\<close>: it neither raises nor returns text.
\<close>

theorem other_reasons_return_None:
  assumes "mic_setup env = None" and "recognition env = Inr r"
    and "reason r \<noteq> RecognizedSpeech"
  shows "snd (speechtotext_from_mic env) = Inr None"
  using assms by (simp add: speechtotext_from_mic_def Let_def)

theorem other_reasons_return_None_witness:
  "mic_setup recognizing_turn = None
   \<and> recognition recognizing_turn
       = Inr (SpeechRecognitionResult RecognizingSpeech ''hel'' [] no_details)
   \<and> RecognizingSpeech \<noteq> RecognizedSpeech
   \<and> snd (speechtotext_from_mic recognizing_turn) = Inr None"
proof -
  have m: "mic_setup recognizing_turn = None"
    and r: "recognition recognizing_turn
              = Inr (SpeechRecognitionResult RecognizingSpeech ''hel'' [] no_details)"
    by (simp_all add: recognizing_turn_def hello_turn_def)
  show ?thesis
    using m r other_reasons_return_None [OF m r] by simp
qed

text \<open>
  Claim C5, as stated: on recognised speech the function returns the text trimmed of
  leading and trailing whitespace.  The code returns \<^verbatim>\<open>speech_recognition_result.text\<close>
  as it is (line 80): for the text " hello " the result keeps both blanks, while the
  trimmed text is "hello".
\<close>

theorem recognized_text_trimmed_counterexample:
  "snd (speechtotext_from_mic padded_turn) = Inr (Some '' hello '')
   \<and> strip '' hello '' = ''hello''
   \<and> snd (speechtotext_from_mic padded_turn) \<noteq> Inr (Some (strip '' hello ''))"
  by (simp add: speechtotext_from_mic_def padded_turn_def hello_turn_def strip_def isspace_def)

text \<open>
  Claim C5, amended.  On recognised speech \<^verbatim>\<open>speechtotext_from_mic\<close> returns the
  recognised text unchanged.
\<close>

theorem recognized_text_returned_unchanged:
  assumes "mic_setup env = None" and "recognition env = Inr r"
    and "reason r = RecognizedSpeech"
  shows "snd (speechtotext_from_mic env) = Inr (Some (result_text r))"
  using assms by (simp add: speechtotext_from_mic_def Let_def)

theorem recognized_text_returned_unchanged_witness:
  "mic_setup padded_turn = None
   \<and> recognition padded_turn
       = Inr (SpeechRecognitionResult RecognizedSpeech '' hello '' [] no_details)
   \<and> snd (speechtotext_from_mic padded_turn) = Inr (Some '' hello '')"
proof -
  have m: "mic_setup padded_turn = None"
    and r: "recognition padded_turn
              = Inr (SpeechRecognitionResult RecognizedSpeech '' hello '' [] no_details)"
    by (simp_all add: padded_turn_def hello_turn_def)
  show ?thesis
    using m r recognized_text_returned_unchanged [OF m r] by simp
qed

section \<open>The shape of one iteration\<close>

lemma chat_gpt_events: "fst (chat_gpt env s) = [ChatCompletion s]"
  by (simp add: chat_gpt_def)

text \<open>The four ways through lines 152-162.\<close>

lemma pipeline_cases [case_names mic_raises no_text chat_raises spoken]:
  obtains
    (mic_raises) e where
      "snd (speechtotext_from_mic env) = Inl e"
      "pipeline env fs = (fst (speechtotext_from_mic env), fs, Inl e)"
  | (no_text) u where
      "snd (speechtotext_from_mic env) = Inr u" "\<not> truthy u"
      "pipeline env fs = (fst (speechtotext_from_mic env) @ [Print retry_notice], fs, Inr ())"
  | (chat_raises) s e where
      "snd (speechtotext_from_mic env) = Inr (Some s)" "s \<noteq> []"
      "snd (chat_gpt env s) = Inl e"
      "pipeline env fs =
         (fst (speechtotext_from_mic env) @ [Print ([newline] @ ''User: '' @ s), ChatCompletion s],
          fs, Inl e)"
  | (spoken) s reply where
      "snd (speechtotext_from_mic env) = Inr (Some s)" "s \<noteq> []"
      "snd (chat_gpt env s) = Inr reply"
      "pipeline env fs =
         (fst (speechtotext_from_mic env)
          @ [Print ([newline] @ ''User: '' @ s), ChatCompletion s, Print (''Bot: '' @ reply)]
          @ fst (text_to_speech env reply fs),
          fst (snd (text_to_speech env reply fs)), snd (snd (text_to_speech env reply fs)))"
proof (cases "snd (speechtotext_from_mic env)")
  case (Inl e)
  then have "pipeline env fs = (fst (speechtotext_from_mic env), fs, Inl e)"
    by (cases "speechtotext_from_mic env") (simp add: pipeline_def)
  with Inl show ?thesis by (rule mic_raises)
next
  case (Inr u)
  show ?thesis
  proof (cases "truthy u")
    case False
    with Inr pipeline_no_text [of env u fs] show ?thesis by (intro no_text) auto
  next
    case True
    then obtain s where u: "u = Some s" and s: "s \<noteq> []"
      by (auto simp: truthy_def split: option.splits)
    show ?thesis
    proof (cases "snd (chat_gpt env s)")
      case (Inl e)
      with Inr u s True have "pipeline env fs =
         (fst (speechtotext_from_mic env) @ [Print ([newline] @ ''User: '' @ s), ChatCompletion s],
          fs, Inl e)"
        using chat_gpt_events [of env s]
        by (cases "speechtotext_from_mic env"; cases "chat_gpt env s") (simp add: pipeline_def)
      with Inr u s Inl show ?thesis by (intro chat_raises) auto
    next
      case reply: (Inr reply)
      with Inr u s True have "pipeline env fs =
         (fst (speechtotext_from_mic env)
          @ [Print ([newline] @ ''User: '' @ s), ChatCompletion s, Print (''Bot: '' @ reply)]
          @ fst (text_to_speech env reply fs),
          fst (snd (text_to_speech env reply fs)), snd (snd (text_to_speech env reply fs)))"
        using chat_gpt_events [of env s]
        by (cases "speechtotext_from_mic env"; cases "chat_gpt env s";
            cases "text_to_speech env reply fs") (simp add: pipeline_def)
      with Inr u s reply show ?thesis by (intro spoken) auto
    qed
  qed
qed

lemma mic_no_prompt: "InputPrompt p \<notin> set (fst (speechtotext_from_mic env))"
  using mic_events [of "InputPrompt p" env] by auto

lemma mic_no_play: "Ffplay p \<notin> set (fst (speechtotext_from_mic env))"
  using mic_events [of "Ffplay p" env] by auto

lemma play_audio_events:
  "ev \<in> set (fst (play_audio env p fs)) \<Longrightarrow>
     ev = Ffplay p \<or> ev = OsRemove p \<or> (\<exists>s. ev = Print s)"
  by (auto simp: play_audio_def Let_def split: option.splits if_splits)

lemma text_to_speech_no_prompt: "InputPrompt p \<notin> set (fst (text_to_speech env txt fs))"
  using play_audio_events [of "InputPrompt p" env "''output.wav''"]
  by (auto simp: text_to_speech_def Let_def case_prod_beta split: option.splits sum.splits)

lemma pipeline_no_prompt: "InputPrompt p \<notin> set (fst (pipeline env fs))"
  by (cases env fs rule: pipeline_cases)
     (simp_all add: mic_no_prompt text_to_speech_no_prompt)

lemma iteration_files: "fst (snd (iteration env fs)) = fst (snd (pipeline env fs))"
  by (simp add: iteration_def try_block_def continue_or_quit_def case_prod_beta
      split: sum.splits)

lemma iteration_events:
  "\<exists>rest. fst (iteration env fs) = fst (pipeline env fs) @ rest
     \<and> set rest \<subseteq> {InputPrompt quit_prompt, Sleep 1} \<union> range Print"
  by (auto simp: iteration_def try_block_def continue_or_quit_def case_prod_beta
      split: sum.splits)

lemma iteration_raised:
  assumes "snd (snd (pipeline env fs)) = Inl e"
  shows "iteration env fs =
           (fst (pipeline env fs) @ [Print (''An error occurred: '' @ exn_msg e), Sleep 1],
            fst (snd (pipeline env fs)), False)"
  using assms by (cases "pipeline env fs") (simp add: iteration_def try_block_def)

lemma iteration_left:
  assumes "snd (snd (iteration env fs))"
  shows "\<exists>line. user_input env = Inr line \<and> lower (strip line) = ''quit''"
  using assms
  by (auto simp: iteration_def try_block_def continue_or_quit_def case_prod_beta
      split: sum.splits if_splits)

section \<open>The concrete turns, run\<close>

lemma lower_strip_Quit: "lower (strip '' Quit '') = ''quit''"
  by code_simp

lemma pipeline_hello:
  "pipeline hello_turn {} =
     ([NewRecognizer, Print ''Speak into your microphone...'', RecognizeOnce,
       Print (newline # ''User: hello''), ChatCompletion ''hello'', Print ''Bot: hi there'',
       NewSynthesizer, SpeakText ''hi there'', Print ''Speech synthesis completed.'',
       Ffplay ''output.wav'', OsRemove ''output.wav''], {}, Inr ())"
  by (simp add: pipeline_def hello_turn_def speechtotext_from_mic_def truthy_def chat_gpt_def
     text_to_speech_def play_audio_def strip_def isspace_def)

lemma iteration_hello:
  "iteration hello_turn {} =
     ([NewRecognizer, Print ''Speak into your microphone...'', RecognizeOnce,
       Print (newline # ''User: hello''), ChatCompletion ''hello'', Print ''Bot: hi there'',
       NewSynthesizer, SpeakText ''hi there'', Print ''Speech synthesis completed.'',
       Ffplay ''output.wav'', OsRemove ''output.wav'', InputPrompt quit_prompt, Sleep 1],
      {}, False)"
proof -
  have "user_input hello_turn = Inr []"
    by (simp add: hello_turn_def)
  then show ?thesis
    by (simp add: iteration_def try_block_def continue_or_quit_def pipeline_hello
        strip_def lower_def)
qed

lemma pipeline_quit: "pipeline quit_turn {} = pipeline hello_turn {}"
  by (simp add: pipeline_def speechtotext_from_mic_def truthy_def chat_gpt_def
      text_to_speech_def play_audio_def quit_turn_def hello_turn_def)

lemma iteration_quit:
  "iteration quit_turn {} =
     ([NewRecognizer, Print ''Speak into your microphone...'', RecognizeOnce,
       Print (newline # ''User: hello''), ChatCompletion ''hello'', Print ''Bot: hi there'',
       NewSynthesizer, SpeakText ''hi there'', Print ''Speech synthesis completed.'',
       Ffplay ''output.wav'', OsRemove ''output.wav'', InputPrompt quit_prompt],
      {}, True)"
proof -
  have "user_input quit_turn = Inr '' Quit ''"
    by (simp add: quit_turn_def)
  then show ?thesis
    by (simp add: iteration_def try_block_def continue_or_quit_def pipeline_quit
        pipeline_hello lower_strip_Quit)
qed

lemma pipeline_offline:
  "pipeline offline_turn {} =
     ([NewRecognizer, Print ''Speak into your microphone...'', RecognizeOnce,
       Print (newline # ''User: hello''), ChatCompletion ''hello''], {},
      Inl (Exn ''APIConnectionError'' ''Connection error.''))"
  by (simp add: pipeline_def speechtotext_from_mic_def truthy_def chat_gpt_def
      offline_turn_def hello_turn_def)

lemma iteration_offline:
  "iteration offline_turn {} =
     ([NewRecognizer, Print ''Speak into your microphone...'', RecognizeOnce,
       Print (newline # ''User: hello''), ChatCompletion ''hello'',
       Print ''An error occurred: Connection error.'', Sleep 1], {}, False)"
  by (simp add: iteration_def try_block_def pipeline_offline)

lemma iteration_locked:
  "iteration locked_turn {} =
     ([NewRecognizer, Print ''Speak into your microphone...'', RecognizeOnce,
       Print (newline # ''User: hello''), ChatCompletion ''hello'', Print ''Bot: hi there'',
       NewSynthesizer, SpeakText ''hi there'', Print ''Speech synthesis completed.'',
       Ffplay ''output.wav'', OsRemove ''output.wav'', InputPrompt quit_prompt, Sleep 1],
      {''output.wav''}, False)"
  by (simp add: iteration_def try_block_def continue_or_quit_def pipeline_def locked_turn_def
      hello_turn_def speechtotext_from_mic_def truthy_def chat_gpt_def
      text_to_speech_def play_audio_def strip_def isspace_def lower_def)

section \<open>The prompt and the end of the session\<close>

text \<open>
  Claim C2.  When the prompt of an iteration is reached and the user enters a line, the
  loop ends with this iteration if and only if the line, trimmed and lowercased, is
  "quit"; with any other line (the empty one too) the loop sleeps and goes on with the
  next iteration.
\<close>

theorem quit_token_ends_session:
  assumes "pipeline env fs = (done, fs', Inr ())" and "user_input env = Inr line"
  shows "snd (snd (iteration env fs)) = (lower (strip line) = ''quit'')
    \<and> session_loop (env # envs) fs =
       (if lower (strip line) = ''quit'' then (done @ [InputPrompt quit_prompt], fs', True)
        else (case session_loop envs fs' of
                (rest, fs'', left) \<Rightarrow>
                  (done @ [InputPrompt quit_prompt, Sleep 1] @ rest, fs'', left)))"
  using assms
  by (simp add: iteration_def try_block_def continue_or_quit_def split: prod.splits)

theorem quit_token_ends_session_witness:
  "user_input quit_turn = Inr '' Quit ''
   \<and> lower (strip '' Quit '') = ''quit''
   \<and> snd (snd (iteration quit_turn {}))
   \<and> snd (snd (session_loop [quit_turn, hello_turn] {}))
   \<and> user_input hello_turn = Inr []
   \<and> lower (strip []) \<noteq> ''quit''
   \<and> \<not> snd (snd (iteration hello_turn {}))
   \<and> \<not> snd (snd (session_loop [hello_turn] {}))"
proof -
  have q: "user_input quit_turn = Inr '' Quit ''"
    and h: "user_input hello_turn = Inr []"
    by (simp_all add: quit_turn_def hello_turn_def)
  have pq: "pipeline quit_turn {} = (fst (pipeline hello_turn {}), {}, Inr ())"
    and ph: "pipeline hello_turn {} = (fst (pipeline hello_turn {}), {}, Inr ())"
    by (simp_all add: pipeline_quit pipeline_hello)
  have e: "lower (strip []) \<noteq> ''quit''"
    by (simp add: strip_def lower_def)
  show ?thesis
    using q h e lower_strip_Quit
      quit_token_ends_session [OF pq q, of "[hello_turn]"]
      quit_token_ends_session [OF ph h, of "[]"]
    by simp
qed

text \<open>
  Claim C4.  When a service raises during a turn (the transcription, or the completion
  after a non-empty utterance, or the synthesis and playback after a reply), the handler
  at the loop boundary prints the message of the exception, sleeps, and the loop goes on
  with the next iteration.  And a session loop that has ended has read, in one of its
  iterations, a line that is "quit" once trimmed and lowercased.
\<close>

lemma pipeline_raised:
  assumes "snd (speechtotext_from_mic env) = Inl e
     \<or> (\<exists>s. snd (speechtotext_from_mic env) = Inr (Some s) \<and> s \<noteq> []
           \<and> (snd (chat_gpt env s) = Inl e
               \<or> (\<exists>reply. snd (chat_gpt env s) = Inr reply
                     \<and> snd (snd (text_to_speech env reply fs)) = Inl e)))"
  shows "snd (snd (pipeline env fs)) = Inl e"
  using assms by (cases env fs rule: pipeline_cases) (auto simp: truthy_def)

lemma session_loop_left:
  "snd (snd (session_loop envs fs)) \<Longrightarrow>
     \<exists>env \<in> set envs. \<exists>line. user_input env = Inr line \<and> lower (strip line) = ''quit''"
proof (induction envs arbitrary: fs)
  case Nil
  then show ?case by simp
next
  case (Cons env envs)
  show ?case
  proof (cases "snd (snd (iteration env fs))")
    case True
    from iteration_left [OF this] show ?thesis by auto
  next
    case False
    with Cons.prems have "snd (snd (session_loop envs (fst (snd (iteration env fs)))))"
      by (simp add: case_prod_beta)
    from Cons.IH [OF this] show ?thesis by auto
  qed
qed

theorem service_errors_are_caught_at_loop:
  "(snd (speechtotext_from_mic env) = Inl e
     \<or> (\<exists>s. snd (speechtotext_from_mic env) = Inr (Some s) \<and> s \<noteq> []
           \<and> (snd (chat_gpt env s) = Inl e
               \<or> (\<exists>reply. snd (chat_gpt env s) = Inr reply
                     \<and> snd (snd (text_to_speech env reply fs)) = Inl e)))
    \<longrightarrow> (\<exists>done fs'.
          iteration env fs =
            (done @ [Print (''An error occurred: '' @ exn_msg e), Sleep 1], fs', False)
          \<and> session_loop (env # envs) fs =
              (done @ [Print (''An error occurred: '' @ exn_msg e), Sleep 1]
                 @ fst (session_loop envs fs'),
               snd (session_loop envs fs'))))
   \<and> (snd (snd (session_loop turns fs0))
        \<longrightarrow> (\<exists>turn \<in> set turns. \<exists>line.
               user_input turn = Inr line \<and> lower (strip line) = ''quit''))"
proof -
  have "\<exists>done fs'.
          iteration env fs =
            (done @ [Print (''An error occurred: '' @ exn_msg e), Sleep 1], fs', False)
          \<and> session_loop (env # envs) fs =
              (done @ [Print (''An error occurred: '' @ exn_msg e), Sleep 1]
                 @ fst (session_loop envs fs'),
               snd (session_loop envs fs'))"
    if "snd (snd (pipeline env fs)) = Inl e"
    using iteration_raised [OF that] by (simp add: case_prod_beta)
  with pipeline_raised [of env e fs] session_loop_left [of turns fs0] show ?thesis
    by blast
qed

theorem service_errors_are_caught_at_loop_witness:
  "snd (chat_gpt offline_turn ''hello'') = Inl (Exn ''APIConnectionError'' ''Connection error.'')
   \<and> iteration offline_turn {} =
       ([NewRecognizer, Print ''Speak into your microphone...'', RecognizeOnce,
         Print (newline # ''User: hello''), ChatCompletion ''hello'',
         Print ''An error occurred: Connection error.'', Sleep 1], {}, False)
   \<and> snd (snd (session_loop [offline_turn, hello_turn, quit_turn, hello_turn] {}))
   \<and> user_input quit_turn = Inr '' Quit ''
   \<and> lower (strip '' Quit '') = ''quit''"
proof -
  have a: "snd (speechtotext_from_mic offline_turn) = Inr (Some ''hello'')"
    "snd (chat_gpt offline_turn ''hello'') = Inl (Exn ''APIConnectionError'' ''Connection error.'')"
    by (simp_all add: offline_turn_def hello_turn_def speechtotext_from_mic_def chat_gpt_def)
  have c: "snd (snd (session_loop [offline_turn, hello_turn, quit_turn, hello_turn] {}))"
    by (simp add: iteration_offline iteration_hello iteration_quit)
  have d: "user_input quit_turn = Inr '' Quit ''"
    by (simp add: quit_turn_def)
  show ?thesis
    using a c d lower_strip_Quit iteration_offline
      service_errors_are_caught_at_loop
        [where env = offline_turn and fs = "{}" and envs = "[]"
           and e = "Exn ''APIConnectionError'' ''Connection error.''"
           and turns = "[offline_turn, hello_turn, quit_turn, hello_turn]" and ?fs0.0 = "{}"]
    by simp
qed

text \<open>
  Claim C6, as stated: after every iteration, also one in which a step failed, the user
  is prompted for the exit keyword before the next iteration.  In the turn whose
  completion request raises, the handler of line 172 runs instead of lines 165-167: the
  iteration shows no prompt and does not leave the loop, although the user would have
  typed "quit".
\<close>

theorem prompt_after_every_iteration_counterexample:
  "user_input offline_turn = Inr ''quit''
   \<and> InputPrompt quit_prompt \<notin> set (fst (iteration offline_turn {}))
   \<and> \<not> snd (snd (iteration offline_turn {}))"
  by (simp add: iteration_offline) (simp add: offline_turn_def)

lemma text_to_speech_returns:
  "synth_setup env = None \<Longrightarrow> synthesis env = Inr result \<Longrightarrow>
     snd (snd (text_to_speech env txt fs)) = Inr ()"
  by (simp add: text_to_speech_def Let_def case_prod_beta)

lemma text_to_speech_player_failed:
  "synth_setup env = None \<Longrightarrow> synthesis env = Inr result \<Longrightarrow>
   synth_reason result = SynthesizingAudioCompleted \<Longrightarrow> player env = Some pe \<Longrightarrow>
     Print (''An error occurred while playing audio: '' @ exn_msg pe)
       \<in> set (fst (text_to_speech env txt fs))"
  by (auto simp: text_to_speech_def play_audio_def Let_def case_prod_beta split: option.splits)

lemma pipeline_spoken:
  assumes "snd (speechtotext_from_mic env) = Inr (Some s)" and "s \<noteq> []"
    and "snd (chat_gpt env s) = Inr reply"
  shows "pipeline env fs =
         (fst (speechtotext_from_mic env)
          @ [Print ([newline] @ ''User: '' @ s), ChatCompletion s, Print (''Bot: '' @ reply)]
          @ fst (text_to_speech env reply fs),
          fst (snd (text_to_speech env reply fs)), snd (snd (text_to_speech env reply fs)))"
  using assms by (cases env fs rule: pipeline_cases) (auto simp: truthy_def)

lemma iteration_prompted:
  assumes "snd (snd (pipeline env fs)) = Inr ()"
  shows "\<exists>rest. fst (iteration env fs) = fst (pipeline env fs) @ InputPrompt quit_prompt # rest"
  using assms
  by (cases "pipeline env fs")
     (auto simp: iteration_def try_block_def continue_or_quit_def split: sum.splits)

lemma prompted_returned:
  assumes "fst (iteration env fs) = fst (pipeline env fs) @ InputPrompt quit_prompt # rest"
  shows "snd (snd (pipeline env fs)) = Inr ()"
proof (cases "snd (snd (pipeline env fs))")
  case (Inl e)
  from iteration_raised [OF this] assms show ?thesis by simp
next
  case (Inr u)
  then show ?thesis by simp
qed

lemma iteration_quit_iff:
  assumes "snd (snd (pipeline env fs)) = Inr ()" and "user_input env = Inr line"
  shows "snd (snd (iteration env fs)) = (lower (strip line) = ''quit'')"
  using assms
  by (cases "pipeline env fs") (simp add: iteration_def try_block_def continue_or_quit_def)

lemma session_loop_step:
  "session_loop (env # envs) fs =
     (if snd (snd (iteration env fs)) then (fst (iteration env fs), fst (snd (iteration env fs)), True)
      else (fst (iteration env fs) @ fst (session_loop envs (fst (snd (iteration env fs)))),
            snd (session_loop envs (fst (snd (iteration env fs))))))"
  by (simp add: case_prod_beta)

text \<open>
  Claim C6, amended.  After every iteration in which no step raises, the user is prompted
  for the exit keyword right after the services and before the next iteration begins:
  this holds for a turn without utterance, for a turn whose synthesis returns a result
  (a cancelled synthesis included), and for a turn whose player fails, whose error
  \<^verbatim>\<open>play_audio\<close> prints itself.  In such an iteration the loop is left exactly when the
  line entered is the exit keyword, and otherwise goes on with the next iteration.  In an
  iteration in which a service raises, the error is logged with its message, no prompt is
  shown, and the next iteration begins.
\<close>

theorem prompt_follows_turns_that_return:
  "(snd (speechtotext_from_mic env) = Inr u \<and> \<not> truthy u
      \<longrightarrow> (\<exists>rest. fst (iteration env fs) = fst (pipeline env fs) @ InputPrompt quit_prompt # rest))
   \<and> (snd (speechtotext_from_mic env) = Inr (Some s) \<and> s \<noteq> []
        \<and> snd (chat_gpt env s) = Inr reply
        \<and> synth_setup env = None \<and> synthesis env = Inr result
      \<longrightarrow> (\<exists>rest. fst (iteration env fs) = fst (pipeline env fs) @ InputPrompt quit_prompt # rest))
   \<and> (snd (speechtotext_from_mic env) = Inr (Some s) \<and> s \<noteq> []
        \<and> snd (chat_gpt env s) = Inr reply
        \<and> synth_setup env = None \<and> synthesis env = Inr result
        \<and> synth_reason result = Canceled
      \<longrightarrow> (\<exists>rest. fst (iteration env fs) = fst (pipeline env fs) @ InputPrompt quit_prompt # rest))
   \<and> (snd (speechtotext_from_mic env) = Inr (Some s) \<and> s \<noteq> []
        \<and> snd (chat_gpt env s) = Inr reply
        \<and> synth_setup env = None \<and> synthesis env = Inr result
        \<and> synth_reason result = SynthesizingAudioCompleted \<and> player env = Some pe
      \<longrightarrow> (\<exists>rest. fst (iteration env fs) = fst (pipeline env fs) @ InputPrompt quit_prompt # rest)
          \<and> Print (''An error occurred while playing audio: '' @ exn_msg pe)
              \<in> set (fst (pipeline env fs)))
   \<and> InputPrompt quit_prompt \<notin> set (fst (pipeline env fs))
   \<and> ((\<exists>rest. fst (iteration env fs) = fst (pipeline env fs) @ InputPrompt quit_prompt # rest)
        \<and> user_input env = Inr line
      \<longrightarrow> snd (snd (iteration env fs)) = (lower (strip line) = ''quit'')
          \<and> session_loop (env # envs) fs =
              (if lower (strip line) = ''quit''
               then (fst (iteration env fs), fst (snd (iteration env fs)), True)
               else (fst (iteration env fs) @ fst (session_loop envs (fst (snd (iteration env fs)))),
                     snd (session_loop envs (fst (snd (iteration env fs)))))))
   \<and> (snd (speechtotext_from_mic env) = Inl e
        \<or> (\<exists>s. snd (speechtotext_from_mic env) = Inr (Some s) \<and> s \<noteq> []
              \<and> (snd (chat_gpt env s) = Inl e
                  \<or> (\<exists>reply. snd (chat_gpt env s) = Inr reply
                        \<and> snd (snd (text_to_speech env reply fs)) = Inl e)))
      \<longrightarrow> fst (iteration env fs)
            = fst (pipeline env fs) @ [Print (''An error occurred: '' @ exn_msg e), Sleep 1]
          \<and> InputPrompt quit_prompt \<notin> set (fst (iteration env fs))
          \<and> \<not> snd (snd (iteration env fs))
          \<and> session_loop (env # envs) fs =
              (fst (iteration env fs) @ fst (session_loop envs (fst (snd (iteration env fs)))),
               snd (session_loop envs (fst (snd (iteration env fs))))))"
proof -
  let ?prompted =
    "\<exists>rest. fst (iteration env fs) = fst (pipeline env fs) @ InputPrompt quit_prompt # rest"
  have quiet: ?prompted if "snd (speechtotext_from_mic env) = Inr u" "\<not> truthy u"
    using pipeline_no_text [OF that, of fs] by (intro iteration_prompted) simp
  have said: ?prompted
    if "snd (speechtotext_from_mic env) = Inr (Some s)" "s \<noteq> []"
      "snd (chat_gpt env s) = Inr reply" "synth_setup env = None" "synthesis env = Inr result"
    using pipeline_spoken [OF that(1-3), of fs] text_to_speech_returns [OF that(4,5), of reply fs]
    by (intro iteration_prompted) simp
  have player: "Print (''An error occurred while playing audio: '' @ exn_msg pe)
                  \<in> set (fst (pipeline env fs))"
    if "snd (speechtotext_from_mic env) = Inr (Some s)" "s \<noteq> []"
      "snd (chat_gpt env s) = Inr reply" "synth_setup env = None" "synthesis env = Inr result"
      "synth_reason result = SynthesizingAudioCompleted" "player env = Some pe"
    using pipeline_spoken [OF that(1-3), of fs]
      text_to_speech_player_failed [OF that(4-7), of reply fs]
    by simp
  have asked: "snd (snd (iteration env fs)) = (lower (strip line) = ''quit'')
          \<and> session_loop (env # envs) fs =
              (if lower (strip line) = ''quit''
               then (fst (iteration env fs), fst (snd (iteration env fs)), True)
               else (fst (iteration env fs) @ fst (session_loop envs (fst (snd (iteration env fs)))),
                     snd (session_loop envs (fst (snd (iteration env fs))))))"
    if "?prompted" "user_input env = Inr line"
  proof -
    from that(1) prompted_returned have "snd (snd (pipeline env fs)) = Inr ()" by blast
    from iteration_quit_iff [OF this that(2)] show ?thesis
      by (subst session_loop_step) simp
  qed
  have raised: "fst (iteration env fs)
            = fst (pipeline env fs) @ [Print (''An error occurred: '' @ exn_msg e), Sleep 1]
          \<and> InputPrompt quit_prompt \<notin> set (fst (iteration env fs))
          \<and> \<not> snd (snd (iteration env fs))
          \<and> session_loop (env # envs) fs =
              (fst (iteration env fs) @ fst (session_loop envs (fst (snd (iteration env fs)))),
               snd (session_loop envs (fst (snd (iteration env fs)))))"
    if "snd (speechtotext_from_mic env) = Inl e
        \<or> (\<exists>s. snd (speechtotext_from_mic env) = Inr (Some s) \<and> s \<noteq> []
              \<and> (snd (chat_gpt env s) = Inl e
                  \<or> (\<exists>reply. snd (chat_gpt env s) = Inr reply
                        \<and> snd (snd (text_to_speech env reply fs)) = Inl e)))"
  proof -
    from pipeline_raised [OF that] have "snd (snd (pipeline env fs)) = Inl e" .
    from iteration_raised [OF this] pipeline_no_prompt [of quit_prompt env fs]
    show ?thesis by (subst session_loop_step) simp
  qed
  from quiet said player asked raised pipeline_no_prompt [of quit_prompt env fs]
  show ?thesis by blast
qed

theorem prompt_follows_turns_that_return_witness:
  "snd (speechtotext_from_mic no_match_turn) = Inr None
   \<and> InputPrompt quit_prompt \<in> set (fst (iteration no_match_turn {}))
   \<and> synthesis cancelled_turn
       = Inr (SpeechSynthesisResult Canceled (CancellationDetails Error ''Connection failed''))
   \<and> InputPrompt quit_prompt \<in> set (fst (iteration cancelled_turn {}))
   \<and> player broken_player_turn
       = Some (Exn ''FileNotFoundError'' ''No such file or directory: ffplay'')
   \<and> InputPrompt quit_prompt \<in> set (fst (iteration broken_player_turn {}))
   \<and> Print ''An error occurred while playing audio: No such file or directory: ffplay''
       \<in> set (fst (pipeline broken_player_turn {}))
   \<and> user_input quit_turn = Inr '' Quit ''
   \<and> snd (snd (iteration quit_turn {}))
   \<and> snd (snd (session_loop [quit_turn, hello_turn] {}))
   \<and> user_input no_match_turn = Inr []
   \<and> \<not> snd (snd (iteration no_match_turn {}))
   \<and> snd (chat_gpt offline_turn ''hello'') = Inl (Exn ''APIConnectionError'' ''Connection error.'')
   \<and> Print ''An error occurred: Connection error.'' \<in> set (fst (iteration offline_turn {}))
   \<and> InputPrompt quit_prompt \<notin> set (fst (iteration offline_turn {}))
   \<and> \<not> snd (snd (iteration offline_turn {}))"
proof -
  have nm: "snd (speechtotext_from_mic no_match_turn) = Inr None" "\<not> truthy None"
    "user_input no_match_turn = Inr []" "lower (strip []) \<noteq> ''quit''"
    by (simp_all add: speechtotext_from_mic_def no_match_turn_def hello_turn_def truthy_def
        strip_def lower_def)
  have ca: "snd (speechtotext_from_mic cancelled_turn) = Inr (Some ''hello'')"
    "snd (chat_gpt cancelled_turn ''hello'') = Inr ''hi there''"
    "synth_setup cancelled_turn = None"
    "synthesis cancelled_turn
       = Inr (SpeechSynthesisResult Canceled (CancellationDetails Error ''Connection failed''))"
    by (simp_all add: cancelled_turn_def hello_turn_def speechtotext_from_mic_def chat_gpt_def
        strip_def isspace_def)
  have bp: "snd (speechtotext_from_mic broken_player_turn) = Inr (Some ''hello'')"
    "snd (chat_gpt broken_player_turn ''hello'') = Inr ''hi there''"
    "synth_setup broken_player_turn = None"
    "synthesis broken_player_turn
       = Inr (SpeechSynthesisResult SynthesizingAudioCompleted no_details)"
    "player broken_player_turn
       = Some (Exn ''FileNotFoundError'' ''No such file or directory: ffplay'')"
    by (simp_all add: broken_player_turn_def hello_turn_def speechtotext_from_mic_def
        chat_gpt_def strip_def isspace_def)
  have qt: "snd (speechtotext_from_mic quit_turn) = Inr (Some ''hello'')"
    "snd (chat_gpt quit_turn ''hello'') = Inr ''hi there''"
    "synth_setup quit_turn = None"
    "synthesis quit_turn = Inr (SpeechSynthesisResult SynthesizingAudioCompleted no_details)"
    "user_input quit_turn = Inr '' Quit ''"
    by (simp_all add: quit_turn_def hello_turn_def speechtotext_from_mic_def
        chat_gpt_def strip_def isspace_def)
  have off: "snd (speechtotext_from_mic offline_turn) = Inr (Some ''hello'')"
    "snd (chat_gpt offline_turn ''hello'') = Inl (Exn ''APIConnectionError'' ''Connection error.'')"
    by (simp_all add: offline_turn_def hello_turn_def speechtotext_from_mic_def chat_gpt_def)
  note t = prompt_follows_turns_that_return
  have shown: "x \<in> set xs" if "\<exists>rest. xs = pre @ x # rest" for x :: event and xs pre
    using that by auto
  have p1: "\<exists>rest. fst (iteration no_match_turn {})
              = fst (pipeline no_match_turn {}) @ InputPrompt quit_prompt # rest"
    using nm t [where env = no_match_turn and fs = "{}" and u = None]
    by blast
  have 1: "InputPrompt quit_prompt \<in> set (fst (iteration no_match_turn {}))
      \<and> \<not> snd (snd (iteration no_match_turn {}))"
    using p1 shown [OF p1] nm t [where env = no_match_turn and fs = "{}" and line = "[]"]
    by blast
  have p2: "\<exists>rest. fst (iteration cancelled_turn {})
              = fst (pipeline cancelled_turn {}) @ InputPrompt quit_prompt # rest"
    using ca t [where env = cancelled_turn and fs = "{}" and s = "''hello''"
          and reply = "''hi there''"
          and result = "SpeechSynthesisResult Canceled (CancellationDetails Error ''Connection failed'')"]
    by (simp add: synth_reason_def)
  have 2: "InputPrompt quit_prompt \<in> set (fst (iteration cancelled_turn {}))"
    by (rule shown [OF p2])
  have p3: "(\<exists>rest. fst (iteration broken_player_turn {})
              = fst (pipeline broken_player_turn {}) @ InputPrompt quit_prompt # rest)
      \<and> Print ''An error occurred while playing audio: No such file or directory: ffplay''
       \<in> set (fst (pipeline broken_player_turn {}))"
    using bp t [where env = broken_player_turn and fs = "{}" and s = "''hello''"
          and reply = "''hi there''"
          and result = "SpeechSynthesisResult SynthesizingAudioCompleted no_details"
          and pe = "Exn ''FileNotFoundError'' ''No such file or directory: ffplay''"]
    by simp
  have 3: "InputPrompt quit_prompt \<in> set (fst (iteration broken_player_turn {}))
      \<and> Print ''An error occurred while playing audio: No such file or directory: ffplay''
       \<in> set (fst (pipeline broken_player_turn {}))"
    using p3 shown [of "fst (iteration broken_player_turn {})"] by blast
  have p4: "\<exists>rest. fst (iteration quit_turn {})
              = fst (pipeline quit_turn {}) @ InputPrompt quit_prompt # rest"
    using qt t [where env = quit_turn and fs = "{}" and s = "''hello''"
          and reply = "''hi there''"
          and result = "SpeechSynthesisResult SynthesizingAudioCompleted no_details"]
    by simp
  have 4: "snd (snd (iteration quit_turn {})) \<and> snd (snd (session_loop [quit_turn, hello_turn] {}))"
  proof -
    from p4 qt(5) t [where env = quit_turn and fs = "{}" and line = "'' Quit ''"
          and envs = "[hello_turn]"]
    have "snd (snd (iteration quit_turn {})) = (lower (strip '' Quit '') = ''quit'')
          \<and> session_loop (quit_turn # [hello_turn]) {} =
              (if lower (strip '' Quit '') = ''quit''
               then (fst (iteration quit_turn {}), fst (snd (iteration quit_turn {})), True)
               else (fst (iteration quit_turn {})
                       @ fst (session_loop [hello_turn] (fst (snd (iteration quit_turn {})))),
                     snd (session_loop [hello_turn] (fst (snd (iteration quit_turn {}))))))"
      by blast
    then show ?thesis
      by (simp only: lower_strip_Quit) simp
  qed
  have 5: "Print ''An error occurred: Connection error.'' \<in> set (fst (iteration offline_turn {}))
   \<and> InputPrompt quit_prompt \<notin> set (fst (iteration offline_turn {}))
   \<and> \<not> snd (snd (iteration offline_turn {}))"
  proof -
    from off t [where env = offline_turn and fs = "{}"
          and e = "Exn ''APIConnectionError'' ''Connection error.''"]
    have "fst (iteration offline_turn {})
            = fst (pipeline offline_turn {})
              @ [Print (''An error occurred: '' @ exn_msg (Exn ''APIConnectionError'' ''Connection error.'')), Sleep 1]
          \<and> InputPrompt quit_prompt \<notin> set (fst (iteration offline_turn {}))
          \<and> \<not> snd (snd (iteration offline_turn {}))"
      by blast
    then have a: "fst (iteration offline_turn {})
            = fst (pipeline offline_turn {})
              @ [Print (''An error occurred: '' @ exn_msg (Exn ''APIConnectionError'' ''Connection error.'')), Sleep 1]"
      and b: "InputPrompt quit_prompt \<notin> set (fst (iteration offline_turn {}))"
        "\<not> snd (snd (iteration offline_turn {}))"
      by blast+
    have "Print ''An error occurred: Connection error.'' \<in> set (fst (iteration offline_turn {}))"
      by (simp add: a)
    with b show ?thesis by blast
  qed
  from 1 2 3 4 5 nm ca bp qt off show ?thesis by simp
qed

section \<open>Playback and cleanup\<close>

lemma play_audio_removed:
  "os_remove env = None \<Longrightarrow> p \<notin> snd (play_audio env p fs)"
  by (simp add: play_audio_def Let_def)

lemma play_audio_kept:
  "os_remove env = Some e \<Longrightarrow> snd (play_audio env p fs) = fs"
  by (simp add: play_audio_def Let_def)

lemma play_audio_attempt:
  "p \<in> fs \<Longrightarrow> OsRemove p \<in> set (fst (play_audio env p fs))"
  by (simp add: play_audio_def Let_def split: option.splits)

lemma play_audio_silent:
  "fst (play_audio (env\<lparr>os_remove := x\<rparr>) p fs) = fst (play_audio env p fs)"
  by (simp add: play_audio_def Let_def split: option.splits)

lemma text_to_speech_played:
  assumes "Ffplay p \<in> set (fst (text_to_speech env txt fs))"
  shows "p = ''output.wav'' \<and> snd (snd (text_to_speech env txt fs)) = Inr ()
     \<and> fst (snd (text_to_speech env txt fs)) =
         snd (play_audio env ''output.wav''
                (if synth_writes_file env then insert ''output.wav'' fs else fs))"
  using assms play_audio_events [of "Ffplay p" env "''output.wav''"]
  by (auto simp: text_to_speech_def Let_def case_prod_beta
      split: option.splits sum.splits if_splits)

lemma text_to_speech_play_events:
  assumes "Ffplay p \<in> set (fst (text_to_speech env txt fs))"
  shows "set (fst (play_audio env ''output.wav''
                (if synth_writes_file env then insert ''output.wav'' fs else fs)))
         \<subseteq> set (fst (text_to_speech env txt fs))"
  using assms
  by (auto simp: text_to_speech_def Let_def case_prod_beta
      split: option.splits sum.splits if_splits)

lemma pipeline_played:
  assumes "Ffplay p \<in> set (fst (pipeline env fs))"
  shows "p = ''output.wav'' \<and> snd (snd (pipeline env fs)) = Inr ()
     \<and> fst (snd (pipeline env fs)) =
         snd (play_audio env ''output.wav''
                (if synth_writes_file env then insert ''output.wav'' fs else fs))"
  using assms
  by (cases env fs rule: pipeline_cases)
     (simp_all add: mic_no_play retry_notice_def text_to_speech_played)

lemma pipeline_play_events:
  assumes "Ffplay p \<in> set (fst (pipeline env fs))"
  shows "set (fst (play_audio env ''output.wav''
                (if synth_writes_file env then insert ''output.wav'' fs else fs)))
         \<subseteq> set (fst (pipeline env fs))"
  using assms
proof (cases env fs rule: pipeline_cases)
  case (spoken s reply)
  with assms have "Ffplay p \<in> set (fst (text_to_speech env reply fs))"
    by (simp add: mic_no_play)
  from text_to_speech_play_events [OF this] spoken show ?thesis by auto
qed (simp_all add: mic_no_play retry_notice_def)

text \<open>
  Claim C3, as stated: after a playback attempt the deletion is attempted, a failure of
  the deletion is swallowed, and the audio file does not exist once the turn is over.  In
  the turn in which \<^verbatim>\<open>os.remove\<close> fails because the file is in use, the player ran, the
  deletion was attempted, and the file is still there after the turn.
\<close>

theorem artifact_gone_after_turn_counterexample:
  "Ffplay ''output.wav'' \<in> set (fst (iteration locked_turn {}))
   \<and> OsRemove ''output.wav'' \<in> set (fst (iteration locked_turn {}))
   \<and> ''output.wav'' \<in> fst (snd (iteration locked_turn {}))"
  by (simp add: iteration_locked)

text \<open>
  Claim C3, amended.  \<^verbatim>\<open>play_audio\<close> attempts the deletion whenever the file exists,
  whatever the player did; what it prints and does is the same whether the deletion
  fails or not (a failure is swallowed silently); when the deletion succeeds the file
  does not exist afterwards, and when it fails the files are as before.  For a turn in
  which playback is attempted: the deletion is attempted when the file exists, and the
  audio file does not exist after the turn when the deletion succeeded.
\<close>

theorem cleanup_is_best_effort:
  "(file_path \<in> fs \<longrightarrow> OsRemove file_path \<in> set (fst (play_audio env file_path fs)))
   \<and> fst (play_audio (env\<lparr>os_remove := outcome\<rparr>) file_path fs)
       = fst (play_audio env file_path fs)
   \<and> (os_remove env = None \<longrightarrow> file_path \<notin> snd (play_audio env file_path fs))
   \<and> (os_remove env \<noteq> None \<longrightarrow> snd (play_audio env file_path fs) = fs)
   \<and> (Ffplay p \<in> set (fst (iteration env fs)) \<and> (synth_writes_file env \<or> ''output.wav'' \<in> fs)
        \<longrightarrow> OsRemove ''output.wav'' \<in> set (fst (iteration env fs)))
   \<and> (Ffplay p \<in> set (fst (iteration env fs)) \<and> os_remove env = None
        \<longrightarrow> ''output.wav'' \<notin> fst (snd (iteration env fs)))"
proof -
  have played: "Ffplay p \<in> set (fst (pipeline env fs))"
    if "Ffplay p \<in> set (fst (iteration env fs))"
    using that iteration_events [of env fs] by auto
  have attempt: "OsRemove ''output.wav'' \<in> set (fst (iteration env fs))"
    if "Ffplay p \<in> set (fst (iteration env fs))"
      and "synth_writes_file env \<or> ''output.wav'' \<in> fs"
  proof -
    from that(2)
    have "''output.wav'' \<in> (if synth_writes_file env then insert ''output.wav'' fs else fs)"
      by auto
    from play_audio_attempt [OF this, of env] pipeline_play_events [OF played [OF that(1)]]
    have "OsRemove ''output.wav'' \<in> set (fst (pipeline env fs))" by blast
    with iteration_events [of env fs] show ?thesis by auto
  qed
  have gone: "''output.wav'' \<notin> fst (snd (iteration env fs))"
    if "Ffplay p \<in> set (fst (iteration env fs))" and "os_remove env = None"
    using pipeline_played [OF played [OF that(1)]] play_audio_removed [OF that(2)]
    by (simp add: iteration_files)
  show ?thesis
    using attempt gone
    by (auto simp: play_audio_attempt play_audio_silent play_audio_removed play_audio_kept)
qed

theorem cleanup_is_best_effort_witness:
  "''output.wav'' \<in> {''output.wav''}
   \<and> OsRemove ''output.wav'' \<in> set (fst (play_audio hello_turn ''output.wav'' {''output.wav''}))
   \<and> os_remove hello_turn = None
   \<and> ''output.wav'' \<notin> snd (play_audio hello_turn ''output.wav'' {''output.wav''})
   \<and> os_remove locked_turn \<noteq> None
   \<and> snd (play_audio locked_turn ''output.wav'' {''output.wav''}) = {''output.wav''}
   \<and> Ffplay ''output.wav'' \<in> set (fst (iteration hello_turn {}))
   \<and> synth_writes_file hello_turn
   \<and> OsRemove ''output.wav'' \<in> set (fst (iteration hello_turn {}))
   \<and> ''output.wav'' \<notin> fst (snd (iteration hello_turn {}))"
proof -
  have a: "os_remove hello_turn = None" "synth_writes_file hello_turn"
    "os_remove locked_turn \<noteq> None"
    by (simp_all add: hello_turn_def locked_turn_def)
  have b: "Ffplay ''output.wav'' \<in> set (fst (iteration hello_turn {}))"
    by (simp add: iteration_hello)
  show ?thesis
    using a b
      cleanup_is_best_effort
        [where file_path = "''output.wav''" and fs = "{''output.wav''}" and env = hello_turn
           and outcome = None and p = "''output.wav''"]
      cleanup_is_best_effort
        [where file_path = "''output.wav''" and fs = "{}" and env = hello_turn
           and outcome = None and p = "''output.wav''"]
      cleanup_is_best_effort
        [where file_path = "''output.wav''" and fs = "{''output.wav''}" and env = locked_turn
           and outcome = None and p = "''output.wav''"]
    by simp
qed

section \<open>A cancelled synthesis\<close>

text \<open>
  Claim C7.  For a synthesis that is cancelled because of an error, the service should log
  the cancellation reason, log the error details and not play.  It prints the text of
  line 122 with its braces, which does not name the reason, then the error details, and
  does not play.
\<close>

theorem cancelled_synthesis_log:
  "text_to_speech cancelled_turn ''hi there'' {} =
     ([NewSynthesizer, SpeakText ''hi there'',
       Print ''Speech synthesis canceled: {cancellation_details.reason}'',
       Print ''Error details: Connection failed''], {}, Inr ())
   \<and> Print (''Speech synthesis canceled: '' @ str_CancellationReason Error)
       \<notin> set (fst (text_to_speech cancelled_turn ''hi there'' {}))"
  by (simp add: text_to_speech_def cancelled_turn_def hello_turn_def)

section \<open>Missing credentials\<close>

lemma init_stt_missing:
  assumes "\<And>subscription region. subscription = None \<or> region = None
            \<Longrightarrow> isl (SpeechConfig subscription region)"
    and "getenv ''AZURE_TTS_KEY'' = None \<or> getenv ''AZURE_TTS_REGION'' = None"
  shows "\<exists>out. SpeechToTextManager_init SpeechConfig config_bool getenv = Inl out
      \<and> (out = SystemExit (azure_keys_missing ''AZURE_TTS_KEY'')
          \<or> (\<exists>e. out = Uncaught e \<and> exn_class e \<noteq> ''TypeError''))"
  using assms(1) [of "getenv ''AZURE_TTS_KEY''" "getenv ''AZURE_TTS_REGION''"] assms(2)
  by (auto simp: SpeechToTextManager_init_def isl_def)

lemma init_stt_outcome:
  "SpeechToTextManager_init SpeechConfig config_bool getenv = Inl out \<Longrightarrow>
     out = SystemExit (azure_keys_missing ''AZURE_TTS_KEY'') \<or> out = SystemExit azure_config_failed
     \<or> (\<exists>e. out = Uncaught e \<and> exn_class e \<noteq> ''TypeError'')"
  by (auto simp: SpeechToTextManager_init_def split: sum.splits if_splits)

lemma init_tts_missing:
  assumes "\<And>subscription region. subscription = None \<or> region = None
            \<Longrightarrow> isl (SpeechConfig subscription region)"
    and "getenv ''AZURE_TTS2_KEY'' = None \<or> getenv ''AZURE_TTS_REGION'' = None"
  shows "\<exists>out. TextToSpeechManager_init SpeechConfig config_bool getenv = Inl out
      \<and> (out = SystemExit (azure_keys_missing ''AZURE_TTS2_KEY'')
          \<or> (\<exists>e. out = Uncaught e \<and> exn_class e \<noteq> ''TypeError''))"
  using assms(1) [of "getenv ''AZURE_TTS2_KEY''" "getenv ''AZURE_TTS_REGION''"] assms(2)
  by (auto simp: TextToSpeechManager_init_def isl_def)

text \<open>
  When the constructor raises for a missing subscription or region, a missing variable
  ends the process before the loop, with no event of the pipeline and the files
  untouched: by one of the \<^verbatim>\<open>exit\<close> calls, or by the constructor's exception when that
  is not a \<^verbatim>\<open>TypeError\<close>.
\<close>

lemma missing_credentials_end_before_loop:
  assumes refuses: "\<And>subscription region. subscription = None \<or> region = None
            \<Longrightarrow> isl (SpeechConfig subscription region)"
    and missing: "\<not> truthy (getenv ''OPENAI_API_KEY'') \<or> getenv ''AZURE_TTS_KEY'' = None
        \<or> getenv ''AZURE_TTS2_KEY'' = None \<or> getenv ''AZURE_TTS_REGION'' = None"
  shows "\<exists>out. main SpeechConfig config_bool getenv envs fs = ([], fs, out)
      \<and> (out = SystemExit openai_key_missing
          \<or> out = SystemExit (azure_keys_missing ''AZURE_TTS_KEY'')
          \<or> out = SystemExit (azure_keys_missing ''AZURE_TTS2_KEY'')
          \<or> out = SystemExit azure_config_failed
          \<or> (\<exists>e. out = Uncaught e \<and> exn_class e \<noteq> ''TypeError''))"
proof (cases "truthy (getenv ''OPENAI_API_KEY'')")
  case False
  then show ?thesis by (simp add: main_def)
next
  case key: True
  show ?thesis
  proof (cases "SpeechToTextManager_init SpeechConfig config_bool getenv")
    case (Inl out)
    with key init_stt_outcome [OF Inl] show ?thesis
      by (auto simp: main_def)
  next
    case (Inr speech_manager)
    have "\<not> (getenv ''AZURE_TTS_KEY'' = None \<or> getenv ''AZURE_TTS_REGION'' = None)"
    proof
      assume "getenv ''AZURE_TTS_KEY'' = None \<or> getenv ''AZURE_TTS_REGION'' = None"
      from init_stt_missing [of SpeechConfig getenv config_bool, OF refuses this] Inr
      show False by auto
    qed
    with missing key
    have "getenv ''AZURE_TTS2_KEY'' = None \<or> getenv ''AZURE_TTS_REGION'' = None"
      by auto
    from init_tts_missing [of SpeechConfig getenv config_bool, OF refuses this] key Inr
    show ?thesis
      by (auto simp: main_def)
  qed
qed

text \<open>
  With a constructor that never raises \<^verbatim>\<open>TypeError\<close>, the messages of lines 61 and 100
  are never what the process ends with.
\<close>

lemma azure_messages_unreachable:
  assumes "\<And>subscription region e. SpeechConfig subscription region = Inl e
            \<Longrightarrow> exn_class e \<noteq> ''TypeError''"
  shows "snd (snd (main SpeechConfig config_bool getenv envs fs))
           \<noteq> SystemExit (azure_keys_missing key)"
proof -
  have "azure_keys_missing key \<noteq> openai_key_missing"
    and "azure_keys_missing key \<noteq> azure_config_failed"
    by (simp_all add: azure_keys_missing_def openai_key_missing_def azure_config_failed_def)
  with assms show ?thesis
    by (auto simp: main_def SpeechToTextManager_init_def TextToSpeechManager_init_def
        case_prod_beta split: sum.splits)
qed

text \<open>
  Claim C8.  For every combination of missing variables the process should end at once
  with a descriptive message, before any pipeline activity.  The handlers of lines 60 and
  99 catch \<^verbatim>\<open>TypeError\<close>, while the constructor raises \<^verbatim>\<open>ValueError\<close>: with
  \<^verbatim>\<open>AZURE_TTS2_KEY\<close> not set, or with no Azure variable set, the process ends before the
  loop with no event, but with the uncaught \<^verbatim>\<open>ValueError\<close> of the constructor and not
  with the message of line 100 or 61.  The check of the OpenAI key (lines 35-36) does end
  the process with its message.
\<close>

theorem missing_azure_key_ends_in_uncaught_error:
  "main (raising_SpeechConfig msg) (\<lambda>config. True) synthesis_key_unset envs fs
     = ([], fs, Uncaught (Exn ''ValueError'' (msg None (Some ''eastus''))))
   \<and> Uncaught (Exn ''ValueError'' (msg None (Some ''eastus'')))
       \<noteq> SystemExit (azure_keys_missing ''AZURE_TTS2_KEY'')
   \<and> main (raising_SpeechConfig msg) (\<lambda>config. True) azure_unset envs fs
     = ([], fs, Uncaught (Exn ''ValueError'' (msg None None)))
   \<and> Uncaught (Exn ''ValueError'' (msg None None))
       \<noteq> SystemExit (azure_keys_missing ''AZURE_TTS_KEY'')
   \<and> main SpeechConfig config_bool (\<lambda>name. None) envs fs
     = ([], fs, SystemExit openai_key_missing)"
  by (simp add: main_def SpeechToTextManager_init_def TextToSpeechManager_init_def
      raising_SpeechConfig_def synthesis_key_unset_def azure_unset_def truthy_def)

end
